theory Spec2Isabelle
  imports Complex_Main
begin

section \<open>Geodesy: \<open>haversine\<close> and the flat-earth bearing\<close>

text \<open>
  The source computes on Python floats. They are modelled as the reals: \<open>math.sin\<close>,
  \<open>math.cos\<close> are \<open>sin\<close>, \<open>cos\<close>; \<open>math.sqrt\<close> and \<open>math.asin\<close> raise
  \<open>ValueError\<close> outside their domains, which is a branch of the model. Rounding,
  infinities and NaN are not part of this model: it returns a value wherever the exact
  formula does. The program can differ where rounding decides, as when the rounded
  \<open>a\<close> of \<open>haversine\<close> exceeds 1 and \<open>asin\<close> raises; no statement below is about
  whether the float computation stays inside the domains.
\<close>

datatype py_error = ValueError | KeyError | IndexError | TypeError

definition radians :: "real \<Rightarrow> real" where
  "radians x = x * pi / 180"

definition degrees :: "real \<Rightarrow> real" where
  "degrees x = x * 180 / pi"

definition py_sqrt :: "real \<Rightarrow> py_error + real" where
  "py_sqrt x = (if x < 0 then Inl ValueError else Inr (sqrt x))"

definition py_asin :: "real \<Rightarrow> py_error + real" where
  "py_asin x = (if x < - 1 \<or> 1 < x then Inl ValueError else Inr (arcsin x))"

text \<open>\<open>math.atan2(y, x)\<close>: the angle of the point \<open>(x, y)\<close>, in \<open>(-pi, pi]\<close>.\<close>

definition atan2 :: "real \<Rightarrow> real \<Rightarrow> real" where
  "atan2 y x =
     (if 0 < x then arctan (y / x)
      else if x < 0 then (if 0 \<le> y then arctan (y / x) + pi else arctan (y / x) - pi)
      else if 0 < y then pi / 2
      else if y < 0 then - (pi / 2)
      else 0)"

text \<open>The value \<open>a\<close> of the haversine formula, on arguments already in radians.\<close>

definition haversine_a :: "real \<Rightarrow> real \<Rightarrow> real \<Rightarrow> real \<Rightarrow> real" where
  "haversine_a lat1 lon1 lat2 lon2 =
     (let delta_lon = lon2 - lon1;
          delta_lat = lat2 - lat1
      in (sin (delta_lat / 2))\<^sup>2 + cos lat1 * cos lat2 * (sin (delta_lon / 2))\<^sup>2)"

definition haversine :: "real \<Rightarrow> real \<Rightarrow> real \<Rightarrow> real \<Rightarrow> string \<Rightarrow> py_error + real" where
  "haversine lat1 lon1 lat2 lon2 units =
     (let a = haversine_a (radians lat1) (radians lon1) (radians lat2) (radians lon2)
      in case py_sqrt a of
           Inl e \<Rightarrow> Inl e
         | Inr q \<Rightarrow>
             (case py_asin q of
                Inl e \<Rightarrow> Inl e
              | Inr s \<Rightarrow>
                  (let c = 2 * s;
                       r = (if units = ''km'' then 6371 else 3956)
                   in Inr (c * r))))"

definition get_flat_earth_bearing :: "real \<Rightarrow> real \<Rightarrow> real \<Rightarrow> real \<Rightarrow> real" where
  "get_flat_earth_bearing lat1 lon1 lat2 lon2 =
     (let relative_lat = lat2 - lat1;
          relative_lon = lon2 - lon1;
          angle = atan2 relative_lon relative_lat
      in degrees angle)"

text \<open>
  \<open>MAX_DISTANCE = haversine(0, 0, 180, 0, "km")\<close> is evaluated when the module is loaded;
  an exception there would stop the program before \<open>main\<close> runs.
\<close>

definition MAX_DISTANCE :: real where
  "MAX_DISTANCE = (case haversine 0 0 180 0 ''km'' of Inr d \<Rightarrow> d | Inl e \<Rightarrow> 0)"

section \<open>The catalog and the distance table\<close>

text \<open>
  A row of \<open>get_all_locations()\<close>: the index \<open>fid\<close> (the key of the \<open>country\<close> table),
  the name columns (\<open>names r col\<close> is the value of column \<open>col\<close>, such as
  \<open>name_en\<close>) and the centroid (\<open>lat = centroid.y\<close>, \<open>lon = centroid.x\<close>). The
  geometry and area columns are only drawn and are left out. The catalog is the
  list of rows in the order of the query (\<open>ORDER BY name_en\<close>); it is a parameter
  of the model, as the database is not part of the program.
\<close>

record location =
  fid :: int
  names :: "string \<Rightarrow> string"
  lat :: real
  lon :: real

text \<open>A row of the frame returned by \<open>get_distances\<close>: the catalog row and two new columns.\<close>

record scored =
  country :: location
  distance :: real
  direction :: real

text \<open>\<open>frame.loc[k]\<close> on a frame whose index has no duplicates: \<open>KeyError\<close> for a missing label.\<close>

definition loc :: "('a \<Rightarrow> int) \<Rightarrow> 'a list \<Rightarrow> int \<Rightarrow> py_error + 'a" where
  "loc key rows k = (case find (\<lambda>r. key r = k) rows of None \<Rightarrow> Inl KeyError | Some r \<Rightarrow> Inr r)"

definition helper_haversine :: "location \<Rightarrow> real \<Rightarrow> real \<Rightarrow> py_error + real" where
  "helper_haversine row target_lat target_lon =
     (let row_lat = lat row; row_lon = lon row
      in haversine row_lat row_lon target_lat target_lon ''km'')"

definition helper_bearing :: "location \<Rightarrow> real \<Rightarrow> real \<Rightarrow> real" where
  "helper_bearing row target_lat target_lon =
     (let row_lat = lat row; row_lon = lon row
      in get_flat_earth_bearing row_lat row_lon target_lat target_lon)"

text \<open>\<open>frame.apply(f, axis=1)\<close> and the \<open>for\<close> loops: \<open>f\<close> on every row in order, stopping at the first exception.\<close>

fun apply_rows :: "('a \<Rightarrow> py_error + 'b) \<Rightarrow> 'a list \<Rightarrow> py_error + 'b list" where
  "apply_rows f [] = Inr []"
| "apply_rows f (r # rs) =
     (case f r of
        Inl e \<Rightarrow> Inl e
      | Inr v \<Rightarrow> (case apply_rows f rs of Inl e \<Rightarrow> Inl e | Inr vs \<Rightarrow> Inr (v # vs)))"

definition get_distances :: "location list \<Rightarrow> int \<Rightarrow> py_error + scored list" where
  "get_distances gdf target_fid =
     (case loc fid gdf target_fid of
        Inl e \<Rightarrow> Inl e
      | Inr target \<Rightarrow>
          (let target_lat = lat target; target_lon = lon target
           in case apply_rows (\<lambda>row. helper_haversine row target_lat target_lon) gdf of
                Inl e \<Rightarrow> Inl e
              | Inr distances \<Rightarrow>
                  (let directions = map (\<lambda>row. helper_bearing row target_lat target_lon) gdf
                   in Inr (map (\<lambda>(row, d, b). \<lparr>country = row, distance = d, direction = b\<rparr>)
                             (zip gdf (zip distances directions))))))"

section \<open>Locale selection\<close>

definition LOCALES :: "(string \<times> string) list" where
  "LOCALES =
     [(''ar'', ''name_ar''), (''bn'', ''name_bn''), (''de'', ''name_de''), (''en'', ''name_en''),
      (''es'', ''name_es''), (''fr'', ''name_fr''), (''el'', ''name_el''), (''hi'', ''name_hi''),
      (''hu'', ''name_hu''), (''id'', ''name_id''), (''it'', ''name_it''), (''ja'', ''name_ja''),
      (''ko'', ''name_ko''), (''nl'', ''name_nl''), (''pl'', ''name_pl''), (''pt'', ''name_pt''),
      (''ru'', ''name_ru''), (''sv'', ''name_sv''), (''tr'', ''name_tr''), (''vi'', ''name_vi''),
      (''zh'', ''name_zh'')]"

definition locale_list :: "string list" where
  "locale_list = map fst LOCALES"

text \<open>\<open>xs.index(x)\<close>: the first position of \<open>x\<close>, \<open>ValueError\<close> when it is absent.\<close>

fun list_index :: "'a list \<Rightarrow> 'a \<Rightarrow> py_error + nat" where
  "list_index [] x = Inl ValueError"
| "list_index (y # ys) x =
     (if y = x then Inr 0
      else case list_index ys x of Inl e \<Rightarrow> Inl e | Inr i \<Rightarrow> Inr (Suc i))"

text \<open>
  Lines 167 to 173. \<open>query_locales\<close> is \<open>query_params.get("locale")\<close>: \<open>None\<close> when the
  parameter is absent (\<open>None[0]\<close> raises the \<open>TypeError\<close> that is caught), otherwise the
  list of its values. \<open>ValueError\<close> from \<open>index\<close> is caught too; an \<open>IndexError\<close> is not.
\<close>

definition locale_index :: "string list option \<Rightarrow> py_error + nat" where
  "locale_index query_locales =
     (case query_locales of
        None \<Rightarrow> Inr 3
      | Some [] \<Rightarrow> Inl IndexError
      | Some (code # _) \<Rightarrow>
          (case list_index locale_list code of Inl e \<Rightarrow> Inr 3 | Inr i \<Rightarrow> Inr i))"

text \<open>
  \<open>st.sidebar.selectbox("Locale", LOCALES, locale_index, key=LOCALE)\<close>: the option at
  \<open>locale_index\<close> until the user picks one in the widget (\<open>widget = Some choice\<close>).
\<close>

definition selectbox :: "string list \<Rightarrow> nat \<Rightarrow> string option \<Rightarrow> string" where
  "selectbox options i widget = (case widget of None \<Rightarrow> options ! i | Some choice \<Rightarrow> choice)"

definition select_locale_col :: "string list option \<Rightarrow> string option \<Rightarrow> py_error + string" where
  "select_locale_col query_locales widget =
     (case locale_index query_locales of
        Inl e \<Rightarrow> Inl e
      | Inr i \<Rightarrow>
          (let selected_locale = selectbox locale_list i widget
           in Inr (case map_of LOCALES selected_locale of None \<Rightarrow> ''en'' | Some col \<Rightarrow> col)))"

section \<open>The game session\<close>

record session =
  random_location :: int
  all_locations :: "scored list"
  guesses :: "int list"

text \<open>Lines 178 to 184: a new session for the row that \<open>get_random_location\<close> drew.\<close>

definition init_session :: "location list \<Rightarrow> int \<Rightarrow> py_error + session" where
  "init_session gdf random_fid =
     (case get_distances gdf random_fid of
        Inl e \<Rightarrow> Inl e
      | Inr tbl \<Rightarrow> Inr \<lparr>random_location = random_fid, all_locations = tbl, guesses = []\<rparr>)"

datatype medal = Gold | Silver | Bronze

text \<open>\<open>int(x)\<close> on a float: truncation towards zero.\<close>

definition py_int :: "real \<Rightarrow> int" where
  "py_int x = (if 0 \<le> x then \<lfloor>x\<rfloor> else \<lceil>x\<rceil>)"

text \<open>One \<open>st.info\<close> line of the loop at lines 276 to 292.\<close>

record info =
  display_guess_name :: string
  info_distance :: real
  info_direction :: real
  prox_icon :: medal
  distance_percentage :: real

definition display_guess :: "scored list \<Rightarrow> string \<Rightarrow> int \<Rightarrow> py_error + info" where
  "display_guess tbl locale_col g =
     (case loc (\<lambda>r. fid (country r)) tbl g of
        Inl e \<Rightarrow> Inl e
      | Inr display_guess_country \<Rightarrow>
          (let d = distance display_guess_country;
               pct = (1 - (d / MAX_DISTANCE)) * 100
           in Inr \<lparr>display_guess_name = names (country display_guess_country) locale_col,
                   info_distance = d,
                   info_direction = direction display_guess_country,
                   prox_icon = (if py_int pct = 100 then Gold
                                else if py_int pct > 50 then Silver
                                else Bronze),
                   distance_percentage = pct\<rparr>))"

text \<open>
  Line 307: \<open>all_locations.index[all_locations[locale_col] == guess][0]\<close>, the index of
  the first row whose name equals the guess; \<open>[0]\<close> on no row raises \<open>IndexError\<close>.
\<close>

definition guess_fid :: "scored list \<Rightarrow> string \<Rightarrow> string \<Rightarrow> py_error + int" where
  "guess_fid tbl locale_col guess =
     (case filter (\<lambda>r. names (country r) locale_col = guess) tbl of
        [] \<Rightarrow> Inl IndexError
      | r # _ \<Rightarrow> Inr (fid (country r)))"

datatype view = WON | LOST | WARNING | RERUN

text \<open>
  Lines 190 to 314 of \<open>main\<close>, one run of the script on a session: what it shows (or the
  exception that ends the run) and the session it leaves. \<open>WON\<close> is the success banner
  and \<open>st.stop()\<close> of line 209, \<open>LOST\<close> the error banner of line 295, \<open>WARNING\<close> the
  warning of line 310, \<open>RERUN\<close> the append and \<open>st.experimental_rerun()\<close> of lines 313
  and 314. The maps and the plot are drawn by the libraries and are not modelled.
\<close>

definition play ::
  "session \<Rightarrow> string \<Rightarrow> string \<Rightarrow> bool \<Rightarrow> (py_error + info list \<times> view) \<times> session" where
  "play s locale_col guess has_guessed =
     (let already_won = (random_location s \<in> set (guesses s))
      in case loc (\<lambda>r. fid (country r)) (all_locations s) (random_location s) of
           Inl e \<Rightarrow> (Inl e, s)
         | Inr target \<Rightarrow>
             if already_won then (Inr ([], WON), s)
             else
               (case apply_rows (display_guess (all_locations s) locale_col) (guesses s) of
                  Inl e \<Rightarrow> (Inl e, s)
                | Inr infos \<Rightarrow>
                    if length (guesses s) = 6 then (Inr (infos, LOST), s)
                    else
                      (case guess_fid (all_locations s) locale_col guess of
                         Inl e \<Rightarrow> (Inl e, s)
                       | Inr g \<Rightarrow>
                           if \<not> has_guessed \<or> g \<in> set (guesses s)
                           then (Inr (infos, WARNING), s)
                           else (Inr (infos, RERUN), s\<lparr>guesses := guesses s @ [g]\<rparr>))))"

text \<open>
  The whole of \<open>main\<close>: the stored session is \<open>None\<close> when \<open>random_location\<close> is not in
  \<open>st.session_state\<close> (at the start, and after \<open>on_reset\<close> popped it).
\<close>

definition on_reset :: "session option \<Rightarrow> session option" where
  "on_reset st = None"

definition main ::
  "location list \<Rightarrow> int \<Rightarrow> string list option \<Rightarrow> string option \<Rightarrow> string \<Rightarrow> bool
   \<Rightarrow> session option \<Rightarrow> (py_error + info list \<times> view) \<times> session option" where
  "main gdf random_fid query_locales widget guess has_guessed st =
     (case select_locale_col query_locales widget of
        Inl e \<Rightarrow> (Inl e, st)
      | Inr locale_col \<Rightarrow>
          (case (case st of None \<Rightarrow> init_session gdf random_fid | Some s \<Rightarrow> Inr s) of
             Inl e \<Rightarrow> (Inl e, st)
           | Inr s \<Rightarrow>
               (let (shown, s') = play s locale_col guess has_guessed in (shown, Some s'))))"

text \<open>
  The sessions the program can be in: a fresh one, or one left by a run of the script on
  a session it could be in, whatever the locale, the selected name and the button.
\<close>

inductive reachable :: "location list \<Rightarrow> session \<Rightarrow> bool" for gdf :: "location list" where
  fresh: "init_session gdf random_fid = Inr s \<Longrightarrow> reachable gdf s"
| run: "reachable gdf s \<Longrightarrow> play s locale_col guess has_guessed = (shown, s') \<Longrightarrow> reachable gdf s'"

text \<open>The form of line 299 is reached: the run did not stop or fail before it.\<close>

definition form_shown :: "session \<Rightarrow> string \<Rightarrow> bool" where
  "form_shown s locale_col =
     (\<not> isl (loc (\<lambda>r. fid (country r)) (all_locations s) (random_location s))
      \<and> random_location s \<notin> set (guesses s)
      \<and> \<not> isl (apply_rows (display_guess (all_locations s) locale_col) (guesses s))
      \<and> length (guesses s) \<noteq> 6)"

section \<open>Example data\<close>

text \<open>
  A catalog of seven rows on which the theorems below are exercised. Row 2 lies 89.1
  degrees of longitude from row 1 on the equator, row 4 is opposite row 1. In the column
  \<open>name_fr\<close> rows 5 and 6 carry the same name.
\<close>

definition demo_catalog :: "location list" where
  "demo_catalog =
     [\<lparr>fid = 1, names = (\<lambda>col. ''Alpha''), lat = 0, lon = 0\<rparr>,
      \<lparr>fid = 2, names = (\<lambda>col. ''Bravo''), lat = 0, lon = 891 / 10\<rparr>,
      \<lparr>fid = 3, names = (\<lambda>col. ''Charlie''), lat = 0, lon = 90\<rparr>,
      \<lparr>fid = 4, names = (\<lambda>col. ''Delta''), lat = 0, lon = 180\<rparr>,
      \<lparr>fid = 5, names = (\<lambda>col. if col = ''name_fr'' then ''Ile'' else ''Echo''), lat = 45, lon = 0\<rparr>,
      \<lparr>fid = 6, names = (\<lambda>col. if col = ''name_fr'' then ''Ile'' else ''Foxtrot''), lat = - 45, lon = 0\<rparr>,
      \<lparr>fid = 7, names = (\<lambda>col. ''Golf''), lat = 90, lon = 0\<rparr>]"

text \<open>The table of a session on \<open>demo_catalog\<close> whose mystery country is row 1.\<close>

definition demo_table :: "scored list" where
  "demo_table = (case get_distances demo_catalog 1 of Inr tbl \<Rightarrow> tbl | Inl e \<Rightarrow> [])"

text \<open>A session on \<open>demo_table\<close> with the given guesses.\<close>

definition demo_session :: "int list \<Rightarrow> session" where
  "demo_session gs = \<lparr>random_location = 1, all_locations = demo_table, guesses = gs\<rparr>"

section \<open>Properties of the geodesy functions\<close>

lemma cos_mult_cos_half:
  fixes p q :: real
  shows "cos p * cos q = (cos ((p + q) / 2))\<^sup>2 - (sin ((q - p) / 2))\<^sup>2"
proof -
  define u where "u = (p + q) / 2"
  define v where "v = (q - p) / 2"
  have p: "p = u - v" and q: "q = u + v"
    by (simp_all add: u_def v_def field_simps)
  have "cos (u - v) * cos (u + v) = (cos u)\<^sup>2 * (cos v)\<^sup>2 - (sin u)\<^sup>2 * (sin v)\<^sup>2"
    by (simp add: cos_add cos_diff power2_eq_square algebra_simps)
  also have "\<dots> = (cos u)\<^sup>2 * (1 - (sin v)\<^sup>2) - (1 - (cos u)\<^sup>2) * (sin v)\<^sup>2"
    by (simp only: cos_squared_eq [of v] sin_squared_eq [of u])
  also have "\<dots> = (cos u)\<^sup>2 - (sin v)\<^sup>2"
    by (simp add: algebra_simps)
  finally show ?thesis
    unfolding p q u_def [symmetric] v_def [symmetric] by simp
qed

lemma haversine_a_convex:
  "haversine_a lat1 lon1 lat2 lon2 =
     (1 - (sin ((lon2 - lon1) / 2))\<^sup>2) * (sin ((lat2 - lat1) / 2))\<^sup>2
     + (sin ((lon2 - lon1) / 2))\<^sup>2 * (cos ((lat1 + lat2) / 2))\<^sup>2"
  by (simp add: haversine_a_def Let_def cos_mult_cos_half algebra_simps)

lemma sin_sq_bounds: "0 \<le> (sin (x::real))\<^sup>2 \<and> (sin x)\<^sup>2 \<le> 1"
  by (simp add: abs_square_le_1)

lemma cos_sq_bounds: "0 \<le> (cos (x::real))\<^sup>2 \<and> (cos x)\<^sup>2 \<le> 1"
  by (simp add: abs_square_le_1)

lemma convex_unit:
  fixes s x y :: real
  assumes "0 \<le> s" "s \<le> 1" "0 \<le> x" "x \<le> 1" "0 \<le> y" "y \<le> 1"
  shows "0 \<le> (1 - s) * x + s * y \<and> (1 - s) * x + s * y \<le> 1"
proof
  show "0 \<le> (1 - s) * x + s * y"
    using assms by simp
  have "(1 - s) * x \<le> (1 - s) * 1"
    by (rule mult_left_mono) (use assms in simp_all)
  moreover have "s * y \<le> s * 1"
    by (rule mult_left_mono) (use assms in simp_all)
  ultimately show "(1 - s) * x + s * y \<le> 1"
    by simp
qed

lemma haversine_a_range:
  "0 \<le> haversine_a lat1 lon1 lat2 lon2 \<and> haversine_a lat1 lon1 lat2 lon2 \<le> 1"
  unfolding haversine_a_convex
  by (rule convex_unit) (simp_all add: sin_sq_bounds cos_sq_bounds)

lemma py_asin_unit: "0 \<le> x \<Longrightarrow> x \<le> 1 \<Longrightarrow> py_asin x = Inr (arcsin x)"
  unfolding py_asin_def by auto

lemma haversine_value:
  "haversine lat1 lon1 lat2 lon2 units =
     Inr (2 * arcsin (sqrt (haversine_a (radians lat1) (radians lon1) (radians lat2) (radians lon2)))
          * (if units = ''km'' then 6371 else 3956))"
proof -
  let ?a = "haversine_a (radians lat1) (radians lon1) (radians lat2) (radians lon2)"
  have a: "0 \<le> ?a" "?a \<le> 1"
    using haversine_a_range by blast+
  then have q: "0 \<le> sqrt ?a" "sqrt ?a \<le> 1"
    by (simp_all add: real_le_lsqrt)
  have "py_sqrt ?a = Inr (sqrt ?a)"
    using a by (simp add: py_sqrt_def)
  moreover have "py_asin (sqrt ?a) = Inr (arcsin (sqrt ?a))"
    using q by (rule py_asin_unit)
  ultimately show ?thesis
    by (simp add: haversine_def Let_def)
qed

lemma haversine_a_same: "haversine_a p q p q = 0"
  by (simp add: haversine_a_def)

lemma haversine_a_sym: "haversine_a lat1 lon1 lat2 lon2 = haversine_a lat2 lon2 lat1 lon1"
proof -
  have "sin ((lat1 - lat2) / 2) = - sin ((lat2 - lat1) / 2)"
    by (metis minus_diff_eq minus_divide_left sin_minus)
  moreover have "sin ((lon1 - lon2) / 2) = - sin ((lon2 - lon1) / 2)"
    by (metis minus_diff_eq minus_divide_left sin_minus)
  ultimately show ?thesis
    by (simp add: haversine_a_def Let_def mult.commute)
qed

lemma haversine_same: "haversine p q p q units = Inr 0"
  by (simp add: haversine_value haversine_a_same)

section \<open>Claims about \<open>haversine\<close>\<close>

text \<open>
  C5. For every point \<open>p\<close>, \<open>haversine(p, p)\<close> returns 0, and for every pair of points
  \<open>a\<close> and \<open>b\<close>, \<open>haversine(a, b)\<close> equals \<open>haversine(b, a)\<close>. Both hold for all
  real coordinates, in and out of the range of latitudes and longitudes, and for
  both units.
\<close>

theorem haversine_zero_and_symmetric:
  "haversine p_lat p_lon p_lat p_lon units = Inr 0
   \<and> haversine a_lat a_lon b_lat b_lon units = haversine b_lat b_lon a_lat a_lon units"
proof
  show "haversine p_lat p_lon p_lat p_lon units = Inr 0"
    by (rule haversine_same)
  have "haversine_a (radians a_lat) (radians a_lon) (radians b_lat) (radians b_lon)
        = haversine_a (radians b_lat) (radians b_lon) (radians a_lat) (radians a_lon)"
    by (rule haversine_a_sym)
  then show "haversine a_lat a_lon b_lat b_lon units = haversine b_lat b_lon a_lat a_lon units"
    by (simp only: haversine_value)
qed

section \<open>Properties of the table functions\<close>

lemma loc_Inr: "loc key rows k = Inr r \<Longrightarrow> r \<in> set rows \<and> key r = k"
  by (auto simp: loc_def find_Some_iff split: option.splits)

lemma loc_Inl: "loc key rows k = Inl e \<Longrightarrow> e = KeyError \<and> k \<notin> key ` set rows"
  by (auto simp: loc_def find_None_iff split: option.splits)

lemma loc_member: "k \<in> key ` set rows \<Longrightarrow> \<exists>r. loc key rows k = Inr r"
  by (cases "loc key rows k") (auto dest: loc_Inl)

lemma apply_rows_map:
  "(\<And>r. r \<in> set rs \<Longrightarrow> f r = Inr (g r)) \<Longrightarrow> apply_rows f rs = Inr (map g rs)"
  by (induction rs) simp_all

lemma apply_rows_Inr:
  "apply_rows f rs = Inr vs \<Longrightarrow> list_all2 (\<lambda>r v. f r = Inr v) rs vs"
  by (induction rs arbitrary: vs) (auto split: sum.splits)

lemma apply_rows_Inl:
  "apply_rows f rs = Inl e \<Longrightarrow> \<exists>r \<in> set rs. f r = Inl e"
  by (induction rs) (auto split: sum.splits)

lemma zip3_map:
  "map h (zip rs (zip (map f rs) (map g rs))) = map (\<lambda>r. h (r, f r, g r)) rs"
  by (induction rs) simp_all

lemma bearing_eq:
  "get_flat_earth_bearing lat1 lon1 lat2 lon2 = degrees (atan2 (lon2 - lon1) (lat2 - lat1))"
  by (simp add: get_flat_earth_bearing_def)

lemma get_distances_eq:
  assumes "loc fid gdf t = Inr target"
  shows "get_distances gdf t =
           Inr (map (\<lambda>row. \<lparr>country = row,
                  distance = 2 * arcsin (sqrt (haversine_a (radians (lat row)) (radians (lon row))
                                                 (radians (lat target)) (radians (lon target)))) * 6371,
                  direction = get_flat_earth_bearing (lat row) (lon row) (lat target) (lon target)\<rparr>)
                gdf)"
proof -
  have "apply_rows (\<lambda>row. helper_haversine row (lat target) (lon target)) gdf
        = Inr (map (\<lambda>row. 2 * arcsin (sqrt (haversine_a (radians (lat row)) (radians (lon row))
                                             (radians (lat target)) (radians (lon target)))) * 6371)
                 gdf)"
    by (rule apply_rows_map) (simp add: helper_haversine_def haversine_value)
  then show ?thesis
    using assms by (simp add: get_distances_def Let_def zip3_map helper_bearing_def)
qed

lemma demo_loc_1:
  "loc fid demo_catalog 1 = Inr \<lparr>fid = 1, names = (\<lambda>col. ''Alpha''), lat = 0, lon = 0\<rparr>"
  by (simp add: loc_def demo_catalog_def)

section \<open>Claims about the distance table\<close>

text \<open>
  C4. For every target id present in the catalog (\<open>target\<close> is its row), the table built
  by \<open>get_distances\<close> has, for every row, the distance \<open>haversine\<close> of the row's centroid
  and the target's centroid and the direction \<open>degrees (atan2 (lon2 - lon1) (lat2 - lat1))\<close>
  from the row's centroid to the target's; the target's own row has distance 0; and the
  rows are those of the catalog, in the catalog's order.
\<close>

theorem get_distances_table:
  assumes "loc fid gdf target_fid = Inr target"
  shows "\<exists>tbl. get_distances gdf target_fid = Inr tbl
           \<and> map country tbl = gdf
           \<and> (\<forall>row \<in> set tbl.
                 haversine (lat (country row)) (lon (country row)) (lat target) (lon target) ''km''
                   = Inr (distance row)
                 \<and> direction row
                   = degrees (atan2 (lon target - lon (country row)) (lat target - lat (country row))))
           \<and> (\<forall>row \<in> set tbl. country row = target \<longrightarrow> distance row = 0)
           \<and> target \<in> country ` set tbl"
proof -
  let ?score = "\<lambda>row. \<lparr>country = row,
                   distance = 2 * arcsin (sqrt (haversine_a (radians (lat row)) (radians (lon row))
                                                  (radians (lat target)) (radians (lon target)))) * 6371,
                   direction = get_flat_earth_bearing (lat row) (lon row) (lat target) (lon target)\<rparr>"
  let ?tbl = "map ?score gdf"
  have tbl: "get_distances gdf target_fid = Inr ?tbl"
    using assms by (rule get_distances_eq)
  have order: "map country ?tbl = gdf"
    by (simp add: comp_def)
  have cols: "\<forall>row \<in> set ?tbl.
                 haversine (lat (country row)) (lon (country row)) (lat target) (lon target) ''km''
                   = Inr (distance row)
                 \<and> direction row
                   = degrees (atan2 (lon target - lon (country row)) (lat target - lat (country row)))"
    by (auto simp: haversine_value bearing_eq)
  have own: "\<forall>row \<in> set ?tbl. country row = target \<longrightarrow> distance row = 0"
    by (auto simp: haversine_a_same)
  have "target \<in> set gdf"
    using assms by (auto dest: loc_Inr)
  then have mem: "target \<in> country ` set ?tbl"
    using order by (metis list.set_map)
  show ?thesis
    using tbl order cols own mem by blast
qed

theorem get_distances_table_witness:
  "loc fid demo_catalog 1 = Inr \<lparr>fid = 1, names = (\<lambda>col. ''Alpha''), lat = 0, lon = 0\<rparr>
   \<and> (\<exists>tbl. get_distances demo_catalog 1 = Inr tbl \<and> map country tbl = demo_catalog
           \<and> \<lparr>fid = 1, names = (\<lambda>col. ''Alpha''), lat = 0, lon = 0\<rparr> \<in> country ` set tbl)"
  using get_distances_table [OF demo_loc_1] demo_loc_1 by blast

section \<open>Claims about the locale\<close>

lemma list_index_absent: "x \<notin> set xs \<Longrightarrow> list_index xs x = Inl ValueError"
  by (induction xs) auto

lemma list_index_present:
  "x \<in> set xs \<Longrightarrow> \<exists>i. list_index xs x = Inr i \<and> i < length xs \<and> xs ! i = x"
  by (induction xs) auto

lemma locale_list_en: "locale_list ! 3 = ''en''"
  by (simp add: locale_list_def LOCALES_def)

lemma locale_list_length: "length locale_list = 21"
  by (simp add: locale_list_def LOCALES_def)

lemma en_in_locale_list: "''en'' \<in> set locale_list"
  using nth_mem [of 3 locale_list] by (simp add: locale_list_en locale_list_length)

lemma map_of_graph:
  "map_of (map (\<lambda>c. (c, f c)) cs) c = (if c \<in> set cs then Some (f c) else None)"
  by (induction cs) auto

lemma LOCALES_eq: "LOCALES = map (\<lambda>c. (c, ''name_'' @ c)) locale_list"
  by (simp add: locale_list_def LOCALES_def)

lemma map_of_LOCALES:
  assumes "c \<in> set locale_list"
  shows "map_of LOCALES c = Some (''name_'' @ c)"
proof -
  have "map_of LOCALES c = map_of (map (\<lambda>c. (c, ''name_'' @ c)) locale_list) c"
    using LOCALES_eq by (rule arg_cong [where f = "\<lambda>t. map_of t c"])
  also have "\<dots> = (if c \<in> set locale_list then Some (''name_'' @ c) else None)"
    by (rule map_of_graph)
  also have "\<dots> = Some (''name_'' @ c)"
    using assms by (simp only: if_True)
  finally show ?thesis .
qed

lemma locale_index_absent:
  "code \<notin> set locale_list \<Longrightarrow> locale_index (Some (code # rest)) = Inr 3"
  by (simp add: locale_index_def list_index_absent)

lemma locale_index_present:
  "list_index locale_list code = Inr i \<Longrightarrow> locale_index (Some (code # rest)) = Inr i"
  by (simp add: locale_index_def)

lemma locale_index_None: "locale_index None = Inr 3"
  by (simp add: locale_index_def)

lemma selectbox_None: "selectbox xs i None = xs ! i"
  by (simp add: selectbox_def)

lemma select_locale_col_eq:
  "locale_index q = Inr i \<Longrightarrow> selectbox locale_list i None = c \<Longrightarrow> map_of LOCALES c = Some col
   \<Longrightarrow> select_locale_col q None = Inr col"
  by (simp add: select_locale_col_def)

lemma selectbox_default: "selectbox locale_list 3 None = ''en''"
  using selectbox_None [of locale_list 3] locale_list_en by (rule trans)

lemma name_en: "map_of LOCALES ''en'' = Some ''name_en''"
  using map_of_LOCALES [OF en_in_locale_list] by simp

text \<open>
  C8. A locale code that is not one of the keys of \<open>LOCALES\<close> selects the default
  locale \<open>en\<close> and its column \<open>name_en\<close>, with no error; a code that is one of the
  keys selects the column of that code. (\<open>widget = None\<close>: the user has not picked
  another locale in the side bar.) An absent parameter selects \<open>name_en\<close> as well.
\<close>

theorem locale_fallback:
  "(code \<notin> set locale_list \<longrightarrow>
      locale_index (Some (code # rest)) = Inr 3
      \<and> selectbox locale_list 3 None = ''en''
      \<and> select_locale_col (Some (code # rest)) None = Inr ''name_en'')
   \<and> (code \<in> set locale_list \<longrightarrow>
      select_locale_col (Some (code # rest)) None = Inr (''name_'' @ code)
      \<and> map_of LOCALES code = Some (''name_'' @ code))
   \<and> select_locale_col None None = Inr ''name_en''"
proof (intro conjI impI)
  show "selectbox locale_list 3 None = ''en''"
    by (rule selectbox_default)
  show "select_locale_col None None = Inr ''name_en''"
    using locale_index_None selectbox_default name_en by (rule select_locale_col_eq)
next
  assume absent: "code \<notin> set locale_list"
  then show idx: "locale_index (Some (code # rest)) = Inr 3"
    by (rule locale_index_absent)
  then show "select_locale_col (Some (code # rest)) None = Inr ''name_en''"
    using selectbox_default name_en by (rule select_locale_col_eq)
next
  assume known: "code \<in> set locale_list"
  then show col: "map_of LOCALES code = Some (''name_'' @ code)"
    by (rule map_of_LOCALES)
  from list_index_present [OF known]
  obtain i where i: "list_index locale_list code = Inr i" and nth: "locale_list ! i = code"
    by (elim exE conjE)
  have idx: "locale_index (Some (code # rest)) = Inr i"
    using i by (rule locale_index_present)
  have sb: "selectbox locale_list i None = code"
    using selectbox_None [of locale_list i] nth by (rule trans)
  show "select_locale_col (Some (code # rest)) None = Inr (''name_'' @ code)"
    using idx sb col by (rule select_locale_col_eq)
qed

lemma xx_not_locale: "''xx'' \<notin> set locale_list"
  by (simp add: locale_list_def LOCALES_def)

lemma fr_locale: "''fr'' \<in> set locale_list"
  by (simp add: locale_list_def LOCALES_def)

theorem locale_fallback_witness:
  "''xx'' \<notin> set locale_list \<and> select_locale_col (Some [''xx'']) None = Inr ''name_en''
   \<and> ''fr'' \<in> set locale_list \<and> select_locale_col (Some [''fr'']) None = Inr ''name_fr''"
proof -
  have "select_locale_col (Some [''xx'']) None = Inr ''name_en''"
    by (rule locale_fallback [of "''xx''" "[]", THEN conjunct1, THEN mp, OF xx_not_locale,
          THEN conjunct2, THEN conjunct2])
  moreover have "select_locale_col (Some [''fr'']) None = Inr (''name_'' @ ''fr'')"
    by (rule locale_fallback [of "''fr''" "[]", THEN conjunct2, THEN conjunct1, THEN mp,
          OF fr_locale, THEN conjunct1])
  ultimately show ?thesis
    using xx_not_locale fr_locale by simp
qed

section \<open>Properties of name resolution and of a run\<close>

lemma guess_fid_unmatched:
  "(\<forall>r \<in> set tbl. names (country r) locale_col \<noteq> guess) \<Longrightarrow> guess_fid tbl locale_col guess = Inl IndexError"
  by (simp add: guess_fid_def filter_empty_conv [THEN iffD2])

lemma guess_fid_Inl:
  "guess_fid tbl locale_col guess = Inl e
   \<Longrightarrow> e = IndexError \<and> (\<forall>r \<in> set tbl. names (country r) locale_col \<noteq> guess)"
  by (auto simp: guess_fid_def filter_empty_conv split: list.splits)

lemma guess_fid_Inr:
  "guess_fid tbl locale_col guess = Inr g
   \<Longrightarrow> \<exists>pre r post. tbl = pre @ r # post
         \<and> (\<forall>p \<in> set pre. names (country p) locale_col \<noteq> guess)
         \<and> names (country r) locale_col = guess \<and> g = fid (country r)"
  by (auto simp: guess_fid_def filter_eq_Cons_iff split: list.splits)

lemma guess_fid_matched:
  assumes "r \<in> set tbl" "names (country r) locale_col = guess"
  shows "\<exists>g. guess_fid tbl locale_col guess = Inr g"
proof (cases "guess_fid tbl locale_col guess")
  case (Inl e)
  then show ?thesis
    using assms by (auto dest: guess_fid_Inl)
next
  case (Inr g)
  then show ?thesis by simp
qed

lemma guess_fid_in_table:
  "guess_fid tbl locale_col guess = Inr g \<Longrightarrow> g \<in> (\<lambda>r. fid (country r)) ` set tbl"
  by (auto dest!: guess_fid_Inr)

lemma play_table: "all_locations (snd (play s locale_col guess has_guessed)) = all_locations s"
  by (simp add: play_def Let_def split: sum.splits)

lemma play_target: "random_location (snd (play s locale_col guess has_guessed)) = random_location s"
  by (simp add: play_def Let_def split: sum.splits)

lemma play_cases:
  "play s locale_col guess has_guessed = (shown, s')
   \<Longrightarrow> s' = s
       \<or> (\<exists>g infos. guess_fid (all_locations s) locale_col guess = Inr g
             \<and> has_guessed \<and> g \<notin> set (guesses s)
             \<and> length (guesses s) \<noteq> 6 \<and> random_location s \<notin> set (guesses s)
             \<and> shown = Inr (infos, RERUN)
             \<and> s' = s\<lparr>guesses := guesses s @ [g]\<rparr>)"
  by (auto simp: play_def Let_def split: sum.splits if_splits)

lemma play_won:
  "loc (\<lambda>r. fid (country r)) (all_locations s) (random_location s) = Inr target
   \<Longrightarrow> random_location s \<in> set (guesses s)
   \<Longrightarrow> play s locale_col guess has_guessed = (Inr ([], WON), s)"
  by (simp add: play_def)

lemma play_lost_only_if:
  "play s locale_col guess has_guessed = (Inr (infos, LOST), s')
   \<Longrightarrow> random_location s \<notin> set (guesses s) \<and> length (guesses s) = 6 \<and> s' = s"
  by (auto simp: play_def Let_def split: sum.splits if_splits)

lemma play_form:
  assumes "form_shown s locale_col"
  shows "\<exists>infos. apply_rows (display_guess (all_locations s) locale_col) (guesses s) = Inr infos
          \<and> play s locale_col guess has_guessed =
              (case guess_fid (all_locations s) locale_col guess of
                 Inl e \<Rightarrow> (Inl e, s)
               | Inr g \<Rightarrow>
                   if \<not> has_guessed \<or> g \<in> set (guesses s) then (Inr (infos, WARNING), s)
                   else (Inr (infos, RERUN), s\<lparr>guesses := guesses s @ [g]\<rparr>))"
  using assms
  by (cases "loc (\<lambda>r. fid (country r)) (all_locations s) (random_location s)";
      cases "apply_rows (display_guess (all_locations s) locale_col) (guesses s)")
     (simp_all add: form_shown_def play_def)

lemma session_append_neq: "s\<lparr>guesses := guesses s @ [g]\<rparr> \<noteq> s"
proof
  assume "s\<lparr>guesses := guesses s @ [g]\<rparr> = s"
  then have "guesses (s\<lparr>guesses := guesses s @ [g]\<rparr>) = guesses s"
    by simp
  then show False by simp
qed

section \<open>The example session\<close>

lemma loc_fid_country:
  "k \<in> fid ` country ` set tbl \<Longrightarrow> \<exists>r. loc (\<lambda>r. fid (country r)) tbl k = Inr r"
  by (rule loc_member) auto

lemma display_guess_ok:
  "g \<in> fid ` country ` set tbl \<Longrightarrow> \<exists>i. display_guess tbl locale_col g = Inr i"
  using loc_fid_country [of g tbl] by (auto simp: display_guess_def Let_def)

lemma display_ok:
  "set gs \<subseteq> fid ` country ` set tbl
   \<Longrightarrow> \<exists>infos. apply_rows (display_guess tbl locale_col) gs = Inr infos"
proof (induction gs)
  case Nil
  then show ?case by simp
next
  case (Cons g gs)
  then obtain i infos where "display_guess tbl locale_col g = Inr i"
    and "apply_rows (display_guess tbl locale_col) gs = Inr infos"
    using display_guess_ok [of g tbl locale_col] by auto
  then show ?case by simp
qed

lemma form_shownI:
  assumes "random_location s \<in> fid ` country ` set (all_locations s)"
    and "set (guesses s) \<subseteq> fid ` country ` set (all_locations s)"
    and "random_location s \<notin> set (guesses s)"
    and "length (guesses s) \<noteq> 6"
  shows "form_shown s locale_col"
  using loc_fid_country [OF assms(1)] display_ok [OF assms(2), of locale_col] assms(3,4)
  by (auto simp: form_shown_def)

lemma guess_fid_via_catalog:
  assumes "map country tbl = cat"
  shows "guess_fid tbl locale_col guess =
           (case filter (\<lambda>c. names c locale_col = guess) cat of
              [] \<Rightarrow> Inl IndexError
            | c # _ \<Rightarrow> Inr (fid c))"
proof -
  have "filter (\<lambda>c. names c locale_col = guess) cat
        = map country (filter (\<lambda>r. names (country r) locale_col = guess) tbl)"
    unfolding assms [symmetric] by (simp add: filter_map comp_def)
  then show ?thesis
    by (cases "filter (\<lambda>r. names (country r) locale_col = guess) tbl") (simp_all add: guess_fid_def)
qed

lemma demo_get_distances: "get_distances demo_catalog 1 = Inr demo_table"
  using get_distances_eq [OF demo_loc_1] by (simp add: demo_table_def)

lemma demo_countries: "map country demo_table = demo_catalog"
  using get_distances_eq [OF demo_loc_1] by (simp add: demo_table_def comp_def)

lemma demo_fids: "fid ` country ` set demo_table = {1, 2, 3, 4, 5, 6, 7}"
proof -
  have "fid ` set (map country demo_table) = {1, 2, 3, 4, 5, 6, 7}"
    unfolding demo_countries by (simp add: demo_catalog_def)
  then show ?thesis by simp
qed

lemma demo_fid_list: "map (\<lambda>r. fid (country r)) demo_table = [1, 2, 3, 4, 5, 6, 7]"
proof -
  have "map (\<lambda>r. fid (country r)) demo_table = map fid (map country demo_table)"
    by (simp add: comp_def)
  then show ?thesis
    unfolding demo_countries by (simp add: demo_catalog_def)
qed

lemma demo_init: "init_session demo_catalog 1 = Inr (demo_session [])"
  by (simp add: init_session_def demo_get_distances demo_session_def)

lemma demo_form_shown:
  "set gs \<subseteq> {2, 3, 4, 5, 6, 7} \<Longrightarrow> length gs \<noteq> 6 \<Longrightarrow> form_shown (demo_session gs) locale_col"
  by (rule form_shownI) (auto simp: demo_session_def demo_fids)

lemma demo_guess_en:
  "guess_fid demo_table ''name_en'' ''Bravo'' = Inr 2"
  "guess_fid demo_table ''name_en'' ''Charlie'' = Inr 3"
  "guess_fid demo_table ''name_en'' ''Delta'' = Inr 4"
  "guess_fid demo_table ''name_en'' ''Echo'' = Inr 5"
  "guess_fid demo_table ''name_en'' ''Foxtrot'' = Inr 6"
  "guess_fid demo_table ''name_en'' ''Golf'' = Inr 7"
  "guess_fid demo_table ''name_en'' ''Alpha'' = Inr 1"
  by (simp_all add: guess_fid_via_catalog [OF demo_countries] demo_catalog_def)

lemma demo_guess_fr: "guess_fid demo_table ''name_fr'' ''Ile'' = Inr 5"
  by (simp add: guess_fid_via_catalog [OF demo_countries] demo_catalog_def)

lemma demo_guess_unmatched: "\<forall>r \<in> set demo_table. names (country r) ''name_en'' \<noteq> ''Zulu''"
proof -
  have "\<forall>c \<in> set (map country demo_table). names c ''name_en'' \<noteq> ''Zulu''"
    unfolding demo_countries by (simp add: demo_catalog_def)
  then show ?thesis by simp
qed

section \<open>Claims about the game session\<close>

text \<open>
  C1. Win detection precedes loss detection. A session whose mystery country is among
  its guesses shows the WON state, in particular when it holds six guesses; the LOST
  state is shown only when the mystery country is not among the guesses. (The session's
  table contains its mystery country, as every table built by \<open>get_distances\<close> does.)
\<close>

theorem win_before_loss:
  assumes "random_location s \<in> fid ` country ` set (all_locations s)"
  shows "(length (guesses s) = 6 \<and> random_location s \<in> set (guesses s)
            \<longrightarrow> play s locale_col guess has_guessed = (Inr ([], WON), s))
         \<and> (random_location s \<in> set (guesses s)
            \<longrightarrow> play s locale_col guess has_guessed = (Inr ([], WON), s))
         \<and> (\<forall>infos s'. play s locale_col guess has_guessed = (Inr (infos, LOST), s')
            \<longrightarrow> random_location s \<notin> set (guesses s) \<and> length (guesses s) = 6)"
proof -
  obtain target where
    "loc (\<lambda>r. fid (country r)) (all_locations s) (random_location s) = Inr target"
    using loc_fid_country [OF assms] by (elim exE)
  then have won: "random_location s \<in> set (guesses s)
      \<Longrightarrow> play s locale_col guess has_guessed = (Inr ([], WON), s)"
    by (rule play_won)
  have lost: "\<forall>infos s'. play s locale_col guess has_guessed = (Inr (infos, LOST), s')
      \<longrightarrow> random_location s \<notin> set (guesses s) \<and> length (guesses s) = 6"
    using play_lost_only_if [of s locale_col guess has_guessed] by auto
  show ?thesis
    using won lost by auto
qed

lemma demo_session_target: "random_location (demo_session gs) \<in> fid ` country ` set (all_locations (demo_session gs))"
  by (simp add: demo_session_def demo_fids)

theorem win_before_loss_witness:
  "random_location (demo_session [2, 3, 4, 5, 6, 1])
     \<in> fid ` country ` set (all_locations (demo_session [2, 3, 4, 5, 6, 1]))
   \<and> length (guesses (demo_session [2, 3, 4, 5, 6, 1])) = 6
   \<and> random_location (demo_session [2, 3, 4, 5, 6, 1]) \<in> set (guesses (demo_session [2, 3, 4, 5, 6, 1]))
   \<and> play (demo_session [2, 3, 4, 5, 6, 1]) ''name_en'' ''Alpha'' True
       = (Inr ([], WON), demo_session [2, 3, 4, 5, 6, 1])"
proof -
  let ?s = "demo_session [2, 3, 4, 5, 6, 1]"
  have six: "length (guesses ?s) = 6 \<and> random_location ?s \<in> set (guesses ?s)"
    by (simp add: demo_session_def)
  have "play ?s ''name_en'' ''Alpha'' True = (Inr ([], WON), ?s)"
    by (rule win_before_loss [OF demo_session_target, of "[2, 3, 4, 5, 6, 1]" "''name_en''" "''Alpha''" True,
          THEN conjunct1, THEN mp, OF six])
  then show ?thesis
    using six demo_session_target [of "[2, 3, 4, 5, 6, 1]"] by (intro conjI) simp_all
qed

text \<open>
  C7. A submitted name that matches no row in the column of the selected locale is not
  resolved to any id: the lookup of line 307 raises \<open>IndexError\<close>, which ends the run
  when the form was reached, and in every case the session is left as it was.
\<close>

theorem unmatched_guess_rejected:
  assumes "\<forall>r \<in> set (all_locations s). names (country r) locale_col \<noteq> guess"
  shows "guess_fid (all_locations s) locale_col guess = Inl IndexError
         \<and> snd (play s locale_col guess has_guessed) = s
         \<and> (form_shown s locale_col
              \<longrightarrow> play s locale_col guess has_guessed = (Inl IndexError, s))"
proof -
  have unresolved: "guess_fid (all_locations s) locale_col guess = Inl IndexError"
    using assms by (rule guess_fid_unmatched)
  have same: "snd (play s locale_col guess has_guessed) = s"
    using play_cases [of s locale_col guess has_guessed "fst (play s locale_col guess has_guessed)"
        "snd (play s locale_col guess has_guessed)"] unresolved
    by auto
  have "play s locale_col guess has_guessed = (Inl IndexError, s)" if "form_shown s locale_col"
    using play_form [OF that, of guess has_guessed] unresolved by auto
  then show ?thesis
    using unresolved same by simp
qed

theorem unmatched_guess_rejected_witness:
  "guess_fid (all_locations (demo_session [2])) ''name_en'' ''Zulu'' = Inl IndexError
   \<and> form_shown (demo_session [2]) ''name_en''
   \<and> play (demo_session [2]) ''name_en'' ''Zulu'' True = (Inl IndexError, demo_session [2])"
proof -
  have none: "\<forall>r \<in> set (all_locations (demo_session [2])). names (country r) ''name_en'' \<noteq> ''Zulu''"
    using demo_guess_unmatched by (simp add: demo_session_def)
  have shown: "form_shown (demo_session [2]) ''name_en''"
    by (rule demo_form_shown) simp_all
  note rejected = unmatched_guess_rejected [OF none, of True]
  have "play (demo_session [2]) ''name_en'' ''Zulu'' True = (Inl IndexError, demo_session [2])"
    using rejected [THEN conjunct2, THEN conjunct2] shown by (rule mp)
  then show ?thesis
    using rejected [THEN conjunct1] shown by (intro conjI)
qed

text \<open>
  C3. When the form is reached and the selected name resolves to the id \<open>g\<close>, the run
  leaves the session unchanged, with the warning, exactly when nothing was submitted
  or \<open>g\<close> is already among the guesses; otherwise it appends \<open>g\<close>. The table and the
  mystery country are never changed. After \<open>g\<close> was submitted once, a run that
  resolves to \<open>g\<close> again, in any locale, leaves the guesses as they are.
\<close>

theorem duplicate_or_empty_rejected:
  assumes "form_shown s locale_col"
    and "guess_fid (all_locations s) locale_col guess = Inr g"
  shows "(snd (play s locale_col guess has_guessed) = s \<longleftrightarrow> \<not> has_guessed \<or> g \<in> set (guesses s))
         \<and> (\<not> has_guessed \<or> g \<in> set (guesses s)
              \<longrightarrow> (\<exists>infos. play s locale_col guess has_guessed = (Inr (infos, WARNING), s)))
         \<and> (has_guessed \<and> g \<notin> set (guesses s)
              \<longrightarrow> (\<exists>infos. play s locale_col guess has_guessed
                             = (Inr (infos, RERUN), s\<lparr>guesses := guesses s @ [g]\<rparr>)))
         \<and> all_locations (snd (play s locale_col guess has_guessed)) = all_locations s
         \<and> random_location (snd (play s locale_col guess has_guessed)) = random_location s
         \<and> (\<forall>locale_col2 guess2 has_guessed2.
               guess_fid (all_locations s) locale_col2 guess2 = Inr g
               \<longrightarrow> guesses (snd (play (snd (play s locale_col guess True)) locale_col2 guess2 has_guessed2))
                   = guesses (snd (play s locale_col guess True)))"
proof -
  obtain infos where run:
    "play s locale_col guess has_guessed =
       (if \<not> has_guessed \<or> g \<in> set (guesses s) then (Inr (infos, WARNING), s)
        else (Inr (infos, RERUN), s\<lparr>guesses := guesses s @ [g]\<rparr>))"
    using play_form [OF assms(1), of guess has_guessed] assms(2) by auto
  have first: "snd (play s locale_col guess has_guessed) = s \<longleftrightarrow> \<not> has_guessed \<or> g \<in> set (guesses s)"
    using run session_append_neq [of s g] by auto
  have warn: "\<not> has_guessed \<or> g \<in> set (guesses s)
      \<longrightarrow> (\<exists>infos. play s locale_col guess has_guessed = (Inr (infos, WARNING), s))"
    using run by auto
  have append: "has_guessed \<and> g \<notin> set (guesses s)
      \<longrightarrow> (\<exists>infos. play s locale_col guess has_guessed
                     = (Inr (infos, RERUN), s\<lparr>guesses := guesses s @ [g]\<rparr>))"
    using run by auto
  have again: "guesses (snd (play (snd (play s locale_col guess True)) locale_col2 guess2 has_guessed2))
                = guesses (snd (play s locale_col guess True))"
    if second: "guess_fid (all_locations s) locale_col2 guess2 = Inr g"
    for locale_col2 guess2 has_guessed2
  proof -
    let ?s1 = "snd (play s locale_col guess True)"
    obtain infos1 where run1:
      "play s locale_col guess True =
         (if g \<in> set (guesses s) then (Inr (infos1, WARNING), s)
          else (Inr (infos1, RERUN), s\<lparr>guesses := guesses s @ [g]\<rparr>))"
      using play_form [OF assms(1), of guess True] assms(2) by auto
    have recorded: "g \<in> set (guesses ?s1)"
      using run1 by auto
    have tbl: "all_locations ?s1 = all_locations s"
      by (rule play_table)
    show ?thesis
      using play_cases [of ?s1 locale_col2 guess2 has_guessed2
          "fst (play ?s1 locale_col2 guess2 has_guessed2)" "snd (play ?s1 locale_col2 guess2 has_guessed2)"]
        recorded second tbl
      by auto
  qed
  show ?thesis
    using first warn append again play_table [of s locale_col guess has_guessed]
      play_target [of s locale_col guess has_guessed]
    by (intro conjI allI impI) auto
qed
theorem duplicate_or_empty_rejected_witness:
  "form_shown (demo_session [2]) ''name_en''
   \<and> guess_fid (all_locations (demo_session [2])) ''name_en'' ''Bravo'' = Inr 2
   \<and> snd (play (demo_session [2]) ''name_en'' ''Bravo'' True) = demo_session [2]
   \<and> guess_fid (all_locations (demo_session [2])) ''name_en'' ''Charlie'' = Inr 3
   \<and> snd (play (demo_session [2]) ''name_en'' ''Charlie'' True) = demo_session [2, 3]
   \<and> snd (play (demo_session [2]) ''name_en'' ''Charlie'' False) = demo_session [2]"
proof -
  have shown: "form_shown (demo_session [2]) ''name_en''"
    by (rule demo_form_shown) simp_all
  have bravo: "guess_fid (all_locations (demo_session [2])) ''name_en'' ''Bravo'' = Inr 2"
    and charlie: "guess_fid (all_locations (demo_session [2])) ''name_en'' ''Charlie'' = Inr 3"
    by (simp_all add: demo_session_def demo_guess_en)
  have dup: "snd (play (demo_session [2]) ''name_en'' ''Bravo'' True) = demo_session [2]"
    using duplicate_or_empty_rejected [OF shown bravo, of True, THEN conjunct1]
    by (simp add: demo_session_def)
  have empty: "snd (play (demo_session [2]) ''name_en'' ''Charlie'' False) = demo_session [2]"
    using duplicate_or_empty_rejected [OF shown charlie, of False, THEN conjunct1]
    by simp
  have "\<exists>infos. play (demo_session [2]) ''name_en'' ''Charlie'' True
          = (Inr (infos, RERUN), (demo_session [2])\<lparr>guesses := guesses (demo_session [2]) @ [3]\<rparr>)"
    using duplicate_or_empty_rejected [OF shown charlie, of True, THEN conjunct2, THEN conjunct2,
        THEN conjunct1]
    by (simp add: demo_session_def)
  then have new: "snd (play (demo_session [2]) ''name_en'' ''Charlie'' True) = demo_session [2, 3]"
    by (auto simp: demo_session_def)
  show ?thesis
    using shown bravo charlie dup empty new by (intro conjI)
qed

lemma guess_fid_not_later:
  assumes "i < j" "j < length tbl"
    and same: "names (country (tbl ! i)) locale_col = names (country (tbl ! j)) locale_col"
    and dist: "distinct (map (\<lambda>r. fid (country r)) tbl)"
  shows "guess_fid tbl locale_col guess \<noteq> Inr (fid (country (tbl ! j)))"
proof
  assume "guess_fid tbl locale_col guess = Inr (fid (country (tbl ! j)))"
  then obtain pre r post where split: "tbl = pre @ r # post"
    and before: "\<forall>p \<in> set pre. names (country p) locale_col \<noteq> guess"
    and hit: "names (country r) locale_col = guess"
    and key: "fid (country (tbl ! j)) = fid (country r)"
    by (auto dest!: guess_fid_Inr)
  let ?k = "length pre"
  have k: "?k < length tbl" and r: "tbl ! ?k = r"
    using split by simp_all
  have "map (\<lambda>r. fid (country r)) tbl ! j = map (\<lambda>r. fid (country r)) tbl ! ?k"
    using key r k assms(2) by simp
  moreover have "(map (\<lambda>r. fid (country r)) tbl ! j = map (\<lambda>r. fid (country r)) tbl ! ?k) = (j = ?k)"
    using dist by (rule nth_eq_iff_index_eq) (simp_all add: k assms(2))
  ultimately have "j = ?k"
    by (rule rev_iffD1)
  then have "tbl ! i \<in> set pre"
    using assms(1) split by (simp add: nth_append)
  then have "names (country (tbl ! i)) locale_col \<noteq> guess"
    using before by simp
  moreover have "names (country (tbl ! j)) locale_col = guess"
    using hit r \<open>j = ?k\<close> by simp
  ultimately show False
    using same by simp
qed

lemma guess_fid_first:
  assumes "r \<in> set tbl" "names (country r) locale_col = guess"
  shows "\<exists>pre r post. tbl = pre @ r # post
           \<and> (\<forall>p \<in> set pre. names (country p) locale_col \<noteq> guess)
           \<and> names (country r) locale_col = guess
           \<and> guess_fid tbl locale_col guess = Inr (fid (country r))"
proof -
  obtain g where "guess_fid tbl locale_col guess = Inr g"
    using guess_fid_matched [OF assms] by (elim exE)
  then show ?thesis
    using guess_fid_Inr [of tbl locale_col guess g] by auto
qed

text \<open>
  C10. A submitted name that matches at least one row resolves to the id of the first
  matching row in the order of the table. When two rows \<open>i < j\<close> of a table with
  distinct ids carry the same name in a locale, no name resolves to the id of row \<open>j\<close>
  in that locale, so a run in that locale never adds it to the guesses.
\<close>

theorem first_match_resolved:
  "((\<exists>r \<in> set tbl. names (country r) locale_col = guess)
      \<longrightarrow> (\<exists>pre r post. tbl = pre @ r # post
             \<and> (\<forall>p \<in> set pre. names (country p) locale_col \<noteq> guess)
             \<and> names (country r) locale_col = guess
             \<and> guess_fid tbl locale_col guess = Inr (fid (country r))))
   \<and> (i < j \<and> j < length tbl
        \<and> names (country (tbl ! i)) locale_col = names (country (tbl ! j)) locale_col
        \<and> distinct (map (\<lambda>r. fid (country r)) tbl)
      \<longrightarrow> guess_fid tbl locale_col guess \<noteq> Inr (fid (country (tbl ! j)))
          \<and> (\<forall>s has_guessed. all_locations s = tbl \<and> fid (country (tbl ! j)) \<notin> set (guesses s)
                \<longrightarrow> fid (country (tbl ! j))
                      \<notin> set (guesses (snd (play s locale_col guess has_guessed)))))"
proof (intro conjI impI)
  assume "\<exists>r \<in> set tbl. names (country r) locale_col = guess"
  then show "\<exists>pre r post. tbl = pre @ r # post
             \<and> (\<forall>p \<in> set pre. names (country p) locale_col \<noteq> guess)
             \<and> names (country r) locale_col = guess
             \<and> guess_fid tbl locale_col guess = Inr (fid (country r))"
    using guess_fid_first by (elim bexE)
next
  assume later: "i < j \<and> j < length tbl
        \<and> names (country (tbl ! i)) locale_col = names (country (tbl ! j)) locale_col
        \<and> distinct (map (\<lambda>r. fid (country r)) tbl)"
  then show never: "guess_fid tbl locale_col guess \<noteq> Inr (fid (country (tbl ! j)))"
    using guess_fid_not_later [of i j tbl locale_col guess] by simp
  show "\<forall>s has_guessed. all_locations s = tbl \<and> fid (country (tbl ! j)) \<notin> set (guesses s)
          \<longrightarrow> fid (country (tbl ! j)) \<notin> set (guesses (snd (play s locale_col guess has_guessed)))"
  proof (intro allI impI)
    fix s :: session and has_guessed
    assume s: "all_locations s = tbl \<and> fid (country (tbl ! j)) \<notin> set (guesses s)"
    show "fid (country (tbl ! j)) \<notin> set (guesses (snd (play s locale_col guess has_guessed)))"
      using play_cases [of s locale_col guess has_guessed
          "fst (play s locale_col guess has_guessed)" "snd (play s locale_col guess has_guessed)"]
        s never
      by auto
  qed
qed

lemma demo_nth: "country (demo_table ! 4) = demo_catalog ! 4" "country (demo_table ! 5) = demo_catalog ! 5"
  using demo_countries nth_map [of 4 demo_table country] nth_map [of 5 demo_table country]
    length_map [of country demo_table]
  by (simp_all add: demo_catalog_def)

theorem first_match_resolved_witness:
  "guess_fid demo_table ''name_fr'' ''Ile'' = Inr 5
   \<and> fid (country (demo_table ! 4)) = 5 \<and> fid (country (demo_table ! 5)) = 6
   \<and> names (country (demo_table ! 4)) ''name_fr'' = names (country (demo_table ! 5)) ''name_fr''
   \<and> distinct (map (\<lambda>r. fid (country r)) demo_table)
   \<and> guess_fid demo_table ''name_fr'' ''Ile'' \<noteq> Inr 6"
proof -
  have len: "length demo_table = 7"
    using length_map [of country demo_table] demo_countries by (simp add: demo_catalog_def)
  have ids: "fid (country (demo_table ! 4)) = 5" "fid (country (demo_table ! 5)) = 6"
    by (simp_all add: demo_nth demo_catalog_def)
  have same: "names (country (demo_table ! 4)) ''name_fr'' = names (country (demo_table ! 5)) ''name_fr''"
    by (simp add: demo_nth demo_catalog_def)
  have dist: "distinct (map (\<lambda>r. fid (country r)) demo_table)"
    by (simp add: demo_fid_list)
  have hyp: "(4::nat) < 5 \<and> 5 < length demo_table
      \<and> names (country (demo_table ! 4)) ''name_fr'' = names (country (demo_table ! 5)) ''name_fr''
      \<and> distinct (map (\<lambda>r. fid (country r)) demo_table)"
    using len same dist by simp
  have "guess_fid demo_table ''name_fr'' ''Ile'' \<noteq> Inr (fid (country (demo_table ! 5)))"
    by (rule first_match_resolved [of demo_table "''name_fr''" "''Ile''" 4 5,
          THEN conjunct2, THEN mp, OF hyp, THEN conjunct1])
  then have never: "guess_fid demo_table ''name_fr'' ''Ile'' \<noteq> Inr 6"
    unfolding ids .
  show ?thesis
    by (intro conjI) (rule demo_guess_fr ids same dist never)+
qed

section \<open>Claims about the reachable sessions\<close>

lemma get_distances_Inr:
  assumes "get_distances gdf t = Inr tbl"
  shows "map country tbl = gdf \<and> t \<in> fid ` set gdf"
proof (cases "loc fid gdf t")
  case (Inl e)
  then show ?thesis
    using assms by (simp add: get_distances_def)
next
  case (Inr target)
  then have "map country tbl = gdf"
    using assms get_distances_eq [OF Inr] by (auto simp: comp_def)
  moreover have "t \<in> fid ` set gdf"
    using loc_Inr [OF Inr] by auto
  ultimately show ?thesis by simp
qed

lemma init_session_Inr:
  assumes "init_session gdf t = Inr s"
  shows "guesses s = [] \<and> random_location s = t \<and> map country (all_locations s) = gdf
         \<and> t \<in> fid ` set gdf"
proof (cases "get_distances gdf t")
  case (Inl e)
  then show ?thesis
    using assms by (simp add: init_session_def)
next
  case (Inr tbl)
  then have "s = \<lparr>random_location = t, all_locations = tbl, guesses = []\<rparr>"
    using assms by (simp add: init_session_def)
  then show ?thesis
    using get_distances_Inr [OF Inr] by simp
qed

lemma reachable_invariant:
  assumes "reachable gdf s"
  shows "length (guesses s) \<le> 6
         \<and> random_location s \<in> fid ` country ` set (all_locations s)
         \<and> set (guesses s) \<subseteq> fid ` country ` set (all_locations s)"
  using assms
proof (induction rule: reachable.induct)
  case (fresh random_fid s)
  have "fid ` country ` set (all_locations s) = fid ` set (map country (all_locations s))"
    by simp
  then show ?case
    using init_session_Inr [OF fresh] by simp
next
  case (run s locale_col guess has_guessed shown s')
  from play_cases [OF run.hyps(2)] show ?case
  proof
    assume "s' = s"
    then show ?thesis using run.IH by simp
  next
    assume "\<exists>g infos. guess_fid (all_locations s) locale_col guess = Inr g
             \<and> has_guessed \<and> g \<notin> set (guesses s)
             \<and> length (guesses s) \<noteq> 6 \<and> random_location s \<notin> set (guesses s)
             \<and> shown = Inr (infos, RERUN)
             \<and> s' = s\<lparr>guesses := guesses s @ [g]\<rparr>"
    then obtain g where g: "guess_fid (all_locations s) locale_col guess = Inr g"
      and room: "length (guesses s) \<noteq> 6"
      and s': "s' = s\<lparr>guesses := guesses s @ [g]\<rparr>"
      by auto
    have "g \<in> fid ` country ` set (all_locations s)"
      using guess_fid_in_table [OF g] by auto
    then show ?thesis
      using run.IH room s' by auto
  qed
qed

lemma play_lost:
  assumes "random_location s \<in> fid ` country ` set (all_locations s)"
    and "set (guesses s) \<subseteq> fid ` country ` set (all_locations s)"
    and "length (guesses s) = 6" "random_location s \<notin> set (guesses s)"
  shows "\<exists>infos. play s locale_col guess has_guessed = (Inr (infos, LOST), s)"
proof -
  obtain target where "loc (\<lambda>r. fid (country r)) (all_locations s) (random_location s) = Inr target"
    using loc_fid_country [OF assms(1)] by (elim exE)
  moreover obtain infos where
    "apply_rows (display_guess (all_locations s) locale_col) (guesses s) = Inr infos"
    using display_ok [OF assms(2), of locale_col] by (elim exE)
  ultimately have "play s locale_col guess has_guessed = (Inr (infos, LOST), s)"
    using assms(3,4) by (simp add: play_def)
  then show ?thesis ..
qed

lemma reachable_submit:
  assumes "reachable gdf s" "form_shown s locale_col"
    and "guess_fid (all_locations s) locale_col guess = Inr g" "g \<notin> set (guesses s)"
  shows "reachable gdf (s\<lparr>guesses := guesses s @ [g]\<rparr>)"
proof -
  obtain infos where
    "play s locale_col guess True = (Inr (infos, RERUN), s\<lparr>guesses := guesses s @ [g]\<rparr>)"
    using play_form [OF assms(2), of guess True] assms(3,4) by auto
  with assms(1) show ?thesis
    by (rule reachable.run)
qed

lemma demo_submit:
  assumes "reachable demo_catalog (demo_session gs)"
    and "set gs \<subseteq> {2, 3, 4, 5, 6, 7}" "length gs \<noteq> 6"
    and "guess_fid demo_table ''name_en'' guess = Inr g" "g \<notin> set gs"
  shows "reachable demo_catalog (demo_session (gs @ [g]))"
proof -
  have "reachable demo_catalog ((demo_session gs)\<lparr>guesses := guesses (demo_session gs) @ [g]\<rparr>)"
    using assms(1) demo_form_shown [OF assms(2,3), of "''name_en''"]
  proof (rule reachable_submit)
    show "guess_fid (all_locations (demo_session gs)) ''name_en'' guess = Inr g"
      using assms(4) by (simp add: demo_session_def)
    show "g \<notin> set (guesses (demo_session gs))"
      using assms(5) by (simp add: demo_session_def)
  qed
  then show ?thesis
    by (simp add: demo_session_def)
qed

lemma demo_reachable: "reachable demo_catalog (demo_session [2, 3, 4, 5, 6, 7])"
proof -
  have r0: "reachable demo_catalog (demo_session [])"
    using demo_init by (rule reachable.fresh)
  have r1: "reachable demo_catalog (demo_session [2])"
    using demo_submit [OF r0 _ _ demo_guess_en(1)] by simp
  have r2: "reachable demo_catalog (demo_session [2, 3])"
    using demo_submit [OF r1 _ _ demo_guess_en(2)] by simp
  have r3: "reachable demo_catalog (demo_session [2, 3, 4])"
    using demo_submit [OF r2 _ _ demo_guess_en(3)] by simp
  have r4: "reachable demo_catalog (demo_session [2, 3, 4, 5])"
    using demo_submit [OF r3 _ _ demo_guess_en(4)] by simp
  have r5: "reachable demo_catalog (demo_session [2, 3, 4, 5, 6])"
    using demo_submit [OF r4 _ _ demo_guess_en(5)] by simp
  show ?thesis
    using demo_submit [OF r5 _ _ demo_guess_en(6)] by simp
qed

text \<open>
  C2. In every reachable session the list of guesses has at most six elements. Once it
  has six and the mystery country is not among them, every run of the script, whatever
  is selected or submitted, shows the LOST state and leaves the session, and so the
  guesses, unchanged.
\<close>

theorem guesses_bounded:
  assumes "reachable gdf s"
  shows "length (guesses s) \<le> 6
         \<and> (length (guesses s) = 6 \<and> random_location s \<notin> set (guesses s)
              \<longrightarrow> (\<forall>locale_col guess has_guessed.
                     \<exists>infos. play s locale_col guess has_guessed = (Inr (infos, LOST), s)))"
proof -
  note inv = reachable_invariant [OF assms]
  have "\<exists>infos. play s locale_col guess has_guessed = (Inr (infos, LOST), s)"
    if "length (guesses s) = 6 \<and> random_location s \<notin> set (guesses s)"
    for locale_col guess has_guessed
    using inv that by (intro play_lost) simp_all
  then show ?thesis
    using inv by simp
qed

theorem guesses_bounded_witness:
  "reachable demo_catalog (demo_session [2, 3, 4, 5, 6, 7])
   \<and> length (guesses (demo_session [2, 3, 4, 5, 6, 7])) = 6
   \<and> random_location (demo_session [2, 3, 4, 5, 6, 7]) \<notin> set (guesses (demo_session [2, 3, 4, 5, 6, 7]))
   \<and> (\<exists>infos. play (demo_session [2, 3, 4, 5, 6, 7]) ''name_en'' ''Alpha'' True
                = (Inr (infos, LOST), demo_session [2, 3, 4, 5, 6, 7]))"
proof -
  let ?s = "demo_session [2, 3, 4, 5, 6, 7]"
  have full: "length (guesses ?s) = 6 \<and> random_location ?s \<notin> set (guesses ?s)"
    by (simp add: demo_session_def)
  have "\<forall>locale_col guess has_guessed.
          \<exists>infos. play ?s locale_col guess has_guessed = (Inr (infos, LOST), ?s)"
    by (rule guesses_bounded [OF demo_reachable, THEN conjunct2, THEN mp, OF full])
  then have "\<exists>infos. play ?s ''name_en'' ''Alpha'' True = (Inr (infos, LOST), ?s)"
    by (elim allE)
  then show ?thesis
    using demo_reachable full by (intro conjI) simp_all
qed

section \<open>Properties of the proximity\<close>

lemma radians_0: "radians 0 = 0"
  by (simp add: radians_def)

lemma radians_180: "radians 180 = pi"
  by (simp add: radians_def)

lemma haversine_max: "haversine 0 0 180 0 ''km'' = Inr (6371 * pi)"
proof -
  have "haversine_a (radians 0) (radians 0) (radians 180) (radians 0) = 1"
    by (simp add: haversine_a_def radians_0 radians_180)
  then show ?thesis
    by (simp add: haversine_value)
qed

lemma MAX_DISTANCE_eq: "MAX_DISTANCE = 6371 * pi"
  by (simp add: MAX_DISTANCE_def haversine_max)

lemma MAX_DISTANCE_pos: "0 < MAX_DISTANCE"
  by (simp add: MAX_DISTANCE_eq)

lemma hav_equator:
  assumes "0 \<le> x" "x \<le> 180"
  shows "2 * arcsin (sqrt (haversine_a (radians 0) (radians x) (radians 0) (radians 0))) * 6371
         = 6371 * pi * x / 180"
proof -
  let ?y = "radians x / 2"
  have y: "0 \<le> ?y" "?y \<le> pi / 2"
    using assms by (simp_all add: radians_def)
  have "haversine_a (radians 0) (radians x) (radians 0) (radians 0) = (sin ?y)\<^sup>2"
    by (simp add: haversine_a_def radians_0)
  moreover have "0 \<le> sin ?y"
    using y by (intro sin_ge_zero) (simp_all add: field_simps)
  ultimately have "sqrt (haversine_a (radians 0) (radians x) (radians 0) (radians 0)) = sin ?y"
    by simp
  moreover have "arcsin (sin ?y) = ?y"
    using y by (intro arcsin_sin) simp_all
  ultimately have "arcsin (sqrt (haversine_a (radians 0) (radians x) (radians 0) (radians 0))) = ?y"
    by (rule trans [OF arg_cong [of _ _ arcsin]])
  then have "2 * arcsin (sqrt (haversine_a (radians 0) (radians x) (radians 0) (radians 0))) * 6371
             = 2 * ?y * 6371"
    by (rule arg_cong [of _ _ "\<lambda>t. 2 * t * 6371"])
  also have "\<dots> = 6371 * pi * x / 180"
    by (simp add: radians_def)
  finally show ?thesis .
qed

lemma py_int_gt_50: "py_int x > 50 \<longleftrightarrow> 51 \<le> x"
  unfolding py_int_def by (auto simp: le_floor_iff less_ceiling_iff)

lemma py_int_eq_100: "py_int x = 100 \<longleftrightarrow> 100 \<le> x \<and> x < 101"
  unfolding py_int_def by (auto simp: floor_eq_iff ceiling_eq_iff)

lemma py_int_of_nonneg_distance:
  assumes "x \<le> 100"
  shows "py_int x = 100 \<longleftrightarrow> x = 100"
  using assms by (auto simp: py_int_eq_100)

lemma display_guess_Inr:
  assumes "display_guess tbl locale_col g = Inr i"
  shows "\<exists>row. loc (\<lambda>r. fid (country r)) tbl g = Inr row
           \<and> display_guess_name i = names (country row) locale_col
           \<and> info_distance i = distance row
           \<and> info_direction i = direction row
           \<and> distance_percentage i = (1 - distance row / MAX_DISTANCE) * 100
           \<and> prox_icon i = (if py_int (distance_percentage i) = 100 then Gold
                             else if py_int (distance_percentage i) > 50 then Silver
                             else Bronze)"
proof (cases "loc (\<lambda>r. fid (country r)) tbl g")
  case (Inl e)
  then show ?thesis
    using assms by (simp add: display_guess_def)
next
  case (Inr row)
  then show ?thesis
    using assms by (auto simp: display_guess_def Let_def)
qed

lemma demo_table_eq:
  "demo_table =
     map (\<lambda>row. \<lparr>country = row,
            distance = 2 * arcsin (sqrt (haversine_a (radians (lat row)) (radians (lon row))
                                           (radians 0) (radians 0))) * 6371,
            direction = get_flat_earth_bearing (lat row) (lon row) 0 0\<rparr>)
       demo_catalog"
  using get_distances_eq [OF demo_loc_1] by (simp add: demo_table_def)

lemma loc_map_rows:
  assumes "\<And>c. key' (f c) = key c"
  shows "loc key' (map f cat) k = (case loc key cat k of Inl e \<Rightarrow> Inl e | Inr c \<Rightarrow> Inr (f c))"
proof -
  have "find (\<lambda>r. key' r = k) (map f cat) = map_option f (find (\<lambda>c. key c = k) cat)"
    by (induction cat) (simp_all add: assms)
  then show ?thesis
    by (simp add: loc_def split: option.splits)
qed

lemma demo_loc_2:
  "loc fid demo_catalog 2 = Inr \<lparr>fid = 2, names = (\<lambda>col. ''Bravo''), lat = 0, lon = 891 / 10\<rparr>"
  by (simp add: loc_def demo_catalog_def)

lemma bearing_west: "get_flat_earth_bearing 0 (891 / 10) 0 0 = - 90"
  by (simp add: get_flat_earth_bearing_def atan2_def degrees_def)

lemma demo_row_2:
  "loc (\<lambda>r. fid (country r)) demo_table 2 =
     Inr \<lparr>country = \<lparr>fid = 2, names = (\<lambda>col. ''Bravo''), lat = 0, lon = 891 / 10\<rparr>,
          distance = 6371 * pi * (891 / 10) / 180,
          direction = - 90\<rparr>"
proof -
  have "2 * arcsin (sqrt (haversine_a (radians 0) (radians (891 / 10)) (radians 0) (radians 0))) * 6371
        = 6371 * pi * (891 / 10) / 180"
    by (rule hav_equator) simp_all
  then show ?thesis
    unfolding demo_table_eq
    by (subst loc_map_rows [where key = fid]) (simp_all add: demo_loc_2 bearing_west)
qed

lemma display_guess_row:
  assumes "loc (\<lambda>r. fid (country r)) tbl g = Inr row"
    and "(1 - distance row / MAX_DISTANCE) * 100 = pct"
  shows "display_guess tbl locale_col g =
           Inr \<lparr>display_guess_name = names (country row) locale_col,
                info_distance = distance row,
                info_direction = direction row,
                prox_icon = (if py_int pct = 100 then Gold
                             else if py_int pct > 50 then Silver
                             else Bronze),
                distance_percentage = pct\<rparr>"
  using assms by (auto simp: display_guess_def Let_def)

lemma py_int_demo: "py_int (101 / 2) = 50"
  by (simp add: py_int_def)

lemma demo_display_2:
  "display_guess demo_table ''name_en'' 2 =
     Inr \<lparr>display_guess_name = ''Bravo'',
          info_distance = 6371 * pi * (891 / 10) / 180,
          info_direction = - 90,
          prox_icon = Bronze,
          distance_percentage = 101 / 2\<rparr>"
proof -
  let ?row = "\<lparr>country = \<lparr>fid = 2, names = (\<lambda>col. ''Bravo''), lat = 0, lon = 891 / 10\<rparr>,
                distance = 6371 * pi * (891 / 10) / 180,
                direction = - 90\<rparr>"
  have pct: "(1 - distance ?row / MAX_DISTANCE) * 100 = 101 / 2"
    by (simp add: MAX_DISTANCE_eq)
  show ?thesis
    using display_guess_row [OF demo_row_2 pct, of "''name_en''"] by (simp add: py_int_demo)
qed

section \<open>Claims about the proximity\<close>

text \<open>
  C6, as the code has it. For every guessed record the displayed proximity is
  \<open>(1 - distance / MAX_DISTANCE) * 100\<close>, where \<open>MAX_DISTANCE\<close> is
  \<open>haversine(0, 0, 180, 0)\<close>, that is \<open>6371 * pi\<close> km. The tier is decided on the
  integer part of the percentage: gold when the integer part is 100, silver when the
  integer part is greater than 50, that is when the percentage is at least 51, and
  bronze when the percentage is below 51. For a distance that is not negative the
  percentage is at most 100, and gold means a percentage of exactly 100.
\<close>

theorem proximity_tiers:
  assumes "display_guess tbl locale_col g = Inr i"
  shows "\<exists>row. loc (\<lambda>r. fid (country r)) tbl g = Inr row
           \<and> distance_percentage i = (1 - distance row / MAX_DISTANCE) * 100
           \<and> haversine 0 0 180 0 ''km'' = Inr MAX_DISTANCE
           \<and> MAX_DISTANCE = 6371 * pi
           \<and> (prox_icon i = Gold \<longleftrightarrow> py_int (distance_percentage i) = 100)
           \<and> (prox_icon i = Silver
                \<longleftrightarrow> py_int (distance_percentage i) \<noteq> 100 \<and> 51 \<le> distance_percentage i)
           \<and> (prox_icon i = Bronze \<longleftrightarrow> distance_percentage i < 51)
           \<and> (0 \<le> distance row
                \<longrightarrow> distance_percentage i \<le> 100
                    \<and> (prox_icon i = Gold \<longleftrightarrow> distance_percentage i = 100)
                    \<and> (prox_icon i = Silver
                         \<longleftrightarrow> 51 \<le> distance_percentage i \<and> distance_percentage i < 100))"
proof -
  obtain row where row: "loc (\<lambda>r. fid (country r)) tbl g = Inr row"
    and pct: "distance_percentage i = (1 - distance row / MAX_DISTANCE) * 100"
    and icon: "prox_icon i = (if py_int (distance_percentage i) = 100 then Gold
                             else if py_int (distance_percentage i) > 50 then Silver
                             else Bronze)"
    using display_guess_Inr [OF assms] by (elim exE conjE)
  have max: "haversine 0 0 180 0 ''km'' = Inr MAX_DISTANCE"
    by (simp add: MAX_DISTANCE_eq haversine_max)
  have gold: "prox_icon i = Gold \<longleftrightarrow> py_int (distance_percentage i) = 100"
    using icon by simp
  have silver: "prox_icon i = Silver
      \<longleftrightarrow> py_int (distance_percentage i) \<noteq> 100 \<and> 51 \<le> distance_percentage i"
    using icon by (simp add: py_int_gt_50)
  have bronze: "prox_icon i = Bronze \<longleftrightarrow> distance_percentage i < 51"
    using icon by (auto simp: py_int_gt_50 py_int_eq_100)
  have bounded: "distance_percentage i \<le> 100" if "0 \<le> distance row"
  proof -
    have "0 \<le> distance row / MAX_DISTANCE"
      using that MAX_DISTANCE_pos by simp
    then have "(1 - distance row / MAX_DISTANCE) * 100 \<le> 1 * 100"
      by (intro mult_right_mono) simp_all
    then show ?thesis
      unfolding pct by simp
  qed
  have exact: "0 \<le> distance row
      \<longrightarrow> distance_percentage i \<le> 100
          \<and> (prox_icon i = Gold \<longleftrightarrow> distance_percentage i = 100)
          \<and> (prox_icon i = Silver
               \<longleftrightarrow> 51 \<le> distance_percentage i \<and> distance_percentage i < 100)"
  proof
    assume "0 \<le> distance row"
    then have le: "distance_percentage i \<le> 100"
      by (rule bounded)
    then have "py_int (distance_percentage i) = 100 \<longleftrightarrow> distance_percentage i = 100"
      by (rule py_int_of_nonneg_distance)
    then show "distance_percentage i \<le> 100
          \<and> (prox_icon i = Gold \<longleftrightarrow> distance_percentage i = 100)
          \<and> (prox_icon i = Silver
               \<longleftrightarrow> 51 \<le> distance_percentage i \<and> distance_percentage i < 100)"
      using le gold silver by auto
  qed
  show ?thesis
  proof (intro exI [of _ row] conjI)
    show "loc (\<lambda>r. fid (country r)) tbl g = Inr row" by (rule row)
    show "distance_percentage i = (1 - distance row / MAX_DISTANCE) * 100" by (rule pct)
    show "haversine 0 0 180 0 ''km'' = Inr MAX_DISTANCE" by (rule max)
    show "MAX_DISTANCE = 6371 * pi" by (rule MAX_DISTANCE_eq)
    show "prox_icon i = Gold \<longleftrightarrow> py_int (distance_percentage i) = 100" by (rule gold)
    show "prox_icon i = Silver
      \<longleftrightarrow> py_int (distance_percentage i) \<noteq> 100 \<and> 51 \<le> distance_percentage i"
      by (rule silver)
    show "prox_icon i = Bronze \<longleftrightarrow> distance_percentage i < 51" by (rule bronze)
    show "0 \<le> distance row
      \<longrightarrow> distance_percentage i \<le> 100
          \<and> (prox_icon i = Gold \<longleftrightarrow> distance_percentage i = 100)
          \<and> (prox_icon i = Silver
               \<longleftrightarrow> 51 \<le> distance_percentage i \<and> distance_percentage i < 100)"
      by (rule exact)
  qed
qed

theorem proximity_tiers_witness:
  "display_guess demo_table ''name_en'' 2 =
     Inr \<lparr>display_guess_name = ''Bravo'',
          info_distance = 6371 * pi * (891 / 10) / 180,
          info_direction = - 90,
          prox_icon = Bronze,
          distance_percentage = 101 / 2\<rparr>
   \<and> (\<exists>row. loc (\<lambda>r. fid (country r)) demo_table 2 = Inr row
          \<and> (101 / 2 :: real) = (1 - distance row / MAX_DISTANCE) * 100
          \<and> (101 / 2 :: real) < 51)"
proof -
  obtain row where "loc (\<lambda>r. fid (country r)) demo_table 2 = Inr row"
    and "(101 / 2 :: real) = (1 - distance row / MAX_DISTANCE) * 100"
    using proximity_tiers [OF demo_display_2] by auto
  then show ?thesis
    using demo_display_2 by auto
qed

text \<open>
  C6 as stated fails: the claim gives silver to every percentage above 50, but the guess
  of row 2 of the example, 89.1 degrees of longitude from the mystery country, has the
  percentage 50.5 and is shown with bronze, because \<open>int(50.5)\<close> is 50.
\<close>

theorem proximity_silver_counterexample:
  "display_guess demo_table ''name_en'' 2 =
     Inr \<lparr>display_guess_name = ''Bravo'',
          info_distance = 6371 * pi * (891 / 10) / 180,
          info_direction = - 90,
          prox_icon = Bronze,
          distance_percentage = 101 / 2\<rparr>
   \<and> (50 :: real) < 101 / 2
   \<and> get_distances demo_catalog 1 = Inr demo_table
   \<and> Bronze \<noteq> Silver"
  using demo_display_2 demo_get_distances by simp

end
